theory Spec2Isabelle
  imports Complex_Main
begin

section \<open>Python values and builtins used by the monitor\<close>

text \<open>
  The development embeds \<^verbatim>\<open>monitoring/monitor.py\<close>. Exceptions are values of the
  type \<open>exn\<close>; a computation that may raise returns \<open>exn + 'a\<close> with \<open>Inl\<close> the
  raised exception. \<open>ApiException\<close> and \<open>RequestException\<close> carry the text that
  \<^verbatim>\<open>str(e)\<close> gives; \<open>ConnectionError\<close> stands for the connection errors a client
  library raises outside those two classes. \<open>KeyboardInterrupt\<close> is the only member that
  is not a subclass of Python's \<^verbatim>\<open>Exception\<close>, so \<^verbatim>\<open>except Exception\<close> catches
  everything else.
\<close>

datatype exn =
    ApiException string
  | ValueError
  | KeyError
  | RequestException string
  | OSError
  | ConnectionError
  | KeyboardInterrupt

definition is_Exception :: "exn \<Rightarrow> bool" where
  "is_Exception e = (e \<noteq> KeyboardInterrupt)"

text \<open>\<^verbatim>\<open>s.endswith(suf)\<close> and the slice \<^verbatim>\<open>s[:-k]\<close>.\<close>

definition endswith :: "string \<Rightarrow> string \<Rightarrow> bool" where
  "endswith s suf = (length suf \<le> length s \<and> drop (length s - length suf) s = suf)"

definition drop_last :: "nat \<Rightarrow> string \<Rightarrow> string" where
  "drop_last k s = take (length s - k) s"

text \<open>
  \<^verbatim>\<open>str(n)\<close> for integers. The digits are produced least significant first, the
  way repeated division does.
\<close>

definition digit_char :: "nat \<Rightarrow> char" where
  "digit_char d = ''0123456789'' ! d"

fun str_nat :: "nat \<Rightarrow> string" where
  "str_nat n = (if n < 10 then [digit_char n] else str_nat (n div 10) @ [digit_char (n mod 10)])"

declare str_nat.simps [simp del]

definition str_int :: "int \<Rightarrow> string" where
  "str_int i = (if i < 0 then CHR ''-'' # str_nat (nat (- i)) else str_nat (nat i))"

text \<open>
  \<^verbatim>\<open>int(s)\<close> and \<^verbatim>\<open>float(s)\<close> on strings. The model covers plain decimal notation:
  an optional sign, digits, and for \<^verbatim>\<open>float\<close> an optional fractional part. Anything
  else raises \<^verbatim>\<open>ValueError\<close>, which is \<open>None\<close> here. (Python also accepts surrounding
  white space, underscores between digits, exponents and the words inf and nan; those
  forms are outside the modelled fragment.) \<open>py_float\<close> gives the rational number that
  the decimal notation denotes; \<open>binary64\<close> below rounds a number to the float that
  holds it.
\<close>

definition is_digit :: "char \<Rightarrow> bool" where
  "is_digit c = (c \<in> set ''0123456789'')"

definition digit_val :: "char \<Rightarrow> nat" where
  "digit_val c = of_char c - 48"

definition digits_val :: "string \<Rightarrow> nat" where
  "digits_val s = foldl (\<lambda>a c. 10 * a + digit_val c) 0 s"

definition all_digits :: "string \<Rightarrow> bool" where
  "all_digits s = list_all is_digit s"

definition py_int_unsigned :: "string \<Rightarrow> int option" where
  "py_int_unsigned s = (if s \<noteq> [] \<and> all_digits s then Some (int (digits_val s)) else None)"

fun py_int :: "string \<Rightarrow> int option" where
  "py_int [] = None"
| "py_int (c # r) =
     (if c = CHR ''-'' then map_option uminus (py_int_unsigned r)
      else if c = CHR ''+'' then py_int_unsigned r
      else py_int_unsigned (c # r))"

definition py_float_unsigned :: "string \<Rightarrow> rat option" where
  "py_float_unsigned s =
     (let ip = takeWhile (\<lambda>c. c \<noteq> CHR ''.'') s;
          rest = dropWhile (\<lambda>c. c \<noteq> CHR ''.'') s
      in case rest of
           [] \<Rightarrow> (if ip \<noteq> [] \<and> all_digits ip then Some (of_nat (digits_val ip)) else None)
         | dot # fp \<Rightarrow>
             (if all_digits ip \<and> all_digits fp \<and> (ip \<noteq> [] \<or> fp \<noteq> [])
              then Some (of_nat (digits_val ip) + of_nat (digits_val fp) / of_nat (10 ^ length fp))
              else None))"

fun py_float :: "string \<Rightarrow> rat option" where
  "py_float [] = None"
| "py_float (c # r) =
     (if c = CHR ''-'' then map_option uminus (py_float_unsigned r)
      else if c = CHR ''+'' then py_float_unsigned r
      else py_float_unsigned (c # r))"

text \<open>\<^verbatim>\<open>int(x)\<close> on a float truncates toward zero.\<close>

definition int_of_float :: "rat \<Rightarrow> int" where
  "int_of_float r = (if 0 \<le> r then \<lfloor>r\<rfloor> else \<lceil>r\<rceil>)"

text \<open>
  A Python float is an IEEE binary64 number, and every float operation returns the
  exact result rounded to the nearest such number, ties to the even significand. The
  floats are modelled as the rationals they are, and \<open>binary64\<close> is the rounding: the
  magnitude is scaled by a power of two into the range of a 53-bit significand (for a
  subnormal result the scaling stops at the smallest exponent), rounded to an integer
  and scaled back. Results of magnitude \<open>2 ^ 1024\<close> and above, where Python answers
  with infinity or \<^verbatim>\<open>OverflowError\<close>, are outside the modelled range.
\<close>

definition round_half_even :: "rat \<Rightarrow> int" where
  "round_half_even r =
     (let f = \<lfloor>r\<rfloor>; d = r - of_int f
      in if d < 1 / 2 then f else if 1 / 2 < d then f + 1 else if even f then f else f + 1)"

function norm_up :: "rat \<Rightarrow> int \<Rightarrow> int" where
  "norm_up a n = (if a < 2 ^ 52 \<and> n < 1074 then norm_up (2 * a) (n + 1) else n)"
  by pat_completeness auto

termination norm_up
  by (relation "measure (\<lambda>(a, n). nat (1074 - n))") auto

function norm_down :: "rat \<Rightarrow> int \<Rightarrow> int" where
  "norm_down a n = (if 2 ^ 53 \<le> a \<and> n < 971 then norm_down (a / 2) (n + 1) else n)"
  by pat_completeness auto

termination norm_down
  by (relation "measure (\<lambda>(a, n). nat (971 - n))") auto

declare norm_up.simps [simp del]

declare norm_down.simps [simp del]

definition binary64 :: "rat \<Rightarrow> rat" where
  "binary64 r =
     (if r = 0 then 0
      else
        (let a = \<bar>r\<bar>;
             v = (if a < 2 ^ 52 then
                    (let k = nat (norm_up a 0)
                     in of_int (round_half_even (a * 2 ^ k)) / 2 ^ k)
                  else
                    (let k = nat (norm_down a 0)
                     in of_int (round_half_even (a / 2 ^ k)) * 2 ^ k))
         in if r < 0 then - v else v))"

section \<open>Quantity parsers\<close>

text \<open>
  \<^verbatim>\<open>CICDMonitor._parse_cpu\<close>: empty input is 0.0, a trailing \<^verbatim>\<open>m\<close> divides the
  prefix by 1000, anything else is converted as it is. Both \<^verbatim>\<open>float(...)\<close> and the
  division round.
\<close>

definition parse_cpu :: "string \<Rightarrow> exn + rat" where
  "parse_cpu cpu_str =
     (if cpu_str = [] then Inr 0
      else if endswith cpu_str ''m'' then
        (case py_float (drop_last 1 cpu_str) of
           None \<Rightarrow> Inl ValueError
         | Some r \<Rightarrow> Inr (binary64 (binary64 r / 1000)))
      else
        (case py_float cpu_str of
           None \<Rightarrow> Inl ValueError
         | Some r \<Rightarrow> Inr (binary64 r)))"

text \<open>
  \<^verbatim>\<open>CICDMonitor._parse_memory\<close>: the dictionary \<^verbatim>\<open>units\<close> is walked in insertion
  order; the first unit the string ends with decides, and a string that ends with none
  of them goes to \<^verbatim>\<open>int\<close>. The product of a float and a power of 1024 is exact, so
  the multiplication needs no rounding; the prefix is taken as the number its notation
  denotes.
\<close>

definition units :: "(string \<times> int) list" where
  "units = [(''Ki'', 1024), (''Mi'', 1024 ^ 2), (''Gi'', 1024 ^ 3), (''Ti'', 1024 ^ 4)]"

fun parse_memory_loop :: "(string \<times> int) list \<Rightarrow> string \<Rightarrow> exn + int" where
  "parse_memory_loop [] memory_str =
     (case py_int memory_str of None \<Rightarrow> Inl ValueError | Some n \<Rightarrow> Inr n)"
| "parse_memory_loop ((unit, multiplier) # rest) memory_str =
     (if endswith memory_str unit then
        (case py_float (drop_last 2 memory_str) of
           None \<Rightarrow> Inl ValueError
         | Some r \<Rightarrow> Inr (int_of_float (r * of_int multiplier)))
      else parse_memory_loop rest memory_str)"

definition parse_memory :: "string \<Rightarrow> exn + int" where
  "parse_memory memory_str =
     (if memory_str = [] then Inr 0 else parse_memory_loop units memory_str)"

section \<open>Cluster records, configuration and the outside world\<close>

text \<open>
  The Kubernetes objects, reduced to the attributes the monitor reads. Replica and
  restart counts are the API's counts (\<open>nat\<close>); an attribute the API leaves unset is
  \<open>None\<close>. Creation times and the clock are seconds on one time line.
\<close>

record deployment =
  d_name :: string
  spec_replicas :: "nat option"
  ready_replicas :: "nat option"
  available_replicas :: "nat option"
  d_creation_timestamp :: int

record container_status =
  c_name :: string
  restart_count :: nat

record pod =
  p_name :: string
  phase :: string
  p_creation_timestamp :: int
  container_statuses :: "container_status list"

text \<open>
  \<^verbatim>\<open>quota.status.hard\<close> and \<^verbatim>\<open>quota.status.used\<close> are dictionaries from resource
  names to quantity strings; \<^verbatim>\<open>hard.items()\<close> is walked in insertion order, so they
  are association lists. An unset or empty dictionary is \<open>[]\<close> (both are falsy).
\<close>

record quota =
  q_name :: string
  hard :: "(string \<times> string) list"
  used :: "(string \<times> string) list"

record issue =
  type :: string
  severity :: string
  resource :: string
  message :: string
  timestamp :: string

text \<open>
  The configuration file. A key that the file does not carry is \<open>None\<close>, and
  \<^verbatim>\<open>d.get(k, default)\<close> is \<open>dict_get\<close>. Under \<^verbatim>\<open>thresholds\<close> the monitor reads
  \<^verbatim>\<open>max_deployment_age_days\<close> and \<^verbatim>\<open>max_container_restarts\<close>; the other three keys
  may be present in a file but no code path of the monitor looks them up. The same holds
  for \<^verbatim>\<open>alerts.email.warning\<close> and \<^verbatim>\<open>alerts.webhook.warning\<close>.
\<close>

definition dict_get :: "'a option \<Rightarrow> 'a \<Rightarrow> 'a" where
  "dict_get v dflt = (case v of None \<Rightarrow> dflt | Some x \<Rightarrow> x)"

record thresholds =
  max_deployment_age_days :: "int option"
  max_container_restarts :: "int option"
  pod_pending_grace_seconds :: "int option"
  quota_warning_pct :: "int option"
  quota_critical_pct :: "int option"

record alerts =
  smtp_enabled :: "bool option"
  email_critical :: "bool option"
  email_warning :: "bool option"
  email_recipients :: "string list option"
  slack_enabled :: "bool option"
  slack_critical :: "bool option"
  slack_warning :: "bool option"
  slack_default_channel :: "string option"
  webhook_enabled :: "bool option"
  webhook_critical :: "bool option"
  webhook_warning :: "bool option"
  send_warnings :: "bool option"

record service =
  s_name :: string
  url :: string
  timeout :: "int option"
  expected_status :: "int option"

record config =
  cfg_thresholds :: thresholds
  cfg_alerts :: alerts
  external_services :: "service list"

text \<open>
  Everything outside the process during one evaluation cycle: what each collector call
  returns or raises, what an HTTP probe returns, the clock, whether each transport
  succeeds, and whether writing the report file and the sleep after the cycle raise.
  The clock is read once per cycle: \<open>now\<close> is \<^verbatim>\<open>datetime.now()\<close> in seconds and
  \<open>now_isoformat\<close> its \<^verbatim>\<open>isoformat()\<close>.
\<close>

record world =
  list_namespaced_deployment :: "string \<Rightarrow> exn + deployment list"
  list_namespaced_pod :: "string \<Rightarrow> exn + pod list"
  list_namespaced_resource_quota :: "string \<Rightarrow> exn + quota list"
  list_namespaced_secret :: "string \<Rightarrow> exn + unit"
  requests_get :: "string \<Rightarrow> int \<Rightarrow> exn + int"
  now :: int
  now_isoformat :: string
  smtp_ok :: bool
  slack_ok :: bool
  webhook_ok :: bool
  write_report :: "exn option"
  sleep :: "exn option"

section \<open>Health rules\<close>

text \<open>The issue every \<^verbatim>\<open>except ApiException\<close> handler of the deployment and pod checks appends.\<close>

definition api_error_issue :: "world \<Rightarrow> string \<Rightarrow> string \<Rightarrow> issue" where
  "api_error_issue w namespace e =
     \<lparr> type = ''api_error'', severity = ''critical'',
       resource = ''namespace/'' @ namespace,
       message = ''Failed to access Kubernetes API: '' @ e,
       timestamp = now_isoformat w \<rparr>"

text \<open>
  The body of the loop over \<^verbatim>\<open>deployments.items\<close> in \<^verbatim>\<open>check_deployment_health\<close>:
  the issues one deployment appends. \<^verbatim>\<open>x or 0\<close> turns an unset count into 0, and
  \<^verbatim>\<open>age.days\<close> is the floor of the age in days.
\<close>

definition deployment_issues :: "config \<Rightarrow> world \<Rightarrow> string \<Rightarrow> deployment \<Rightarrow> issue list" where
  "deployment_issues cfg w namespace d =
     (let name = d_name d;
          spec_replicas = dict_get (spec_replicas d) 0;
          ready_replicas = dict_get (ready_replicas d) 0;
          available_replicas = dict_get (available_replicas d) 0;
          unhealthy =
            (if ready_replicas < spec_replicas then
               [\<lparr> type = ''deployment_unhealthy'',
                  severity = (if ready_replicas = 0 then ''critical'' else ''warning''),
                  resource = namespace @ ''/'' @ name,
                  message = ''Deployment '' @ name @ '' has '' @ str_nat ready_replicas @ ''/''
                            @ str_nat spec_replicas @ '' ready replicas'',
                  timestamp = now_isoformat w \<rparr>]
             else []);
          age_days = (now w - d_creation_timestamp d) div 86400;
          max_age_days = dict_get (max_deployment_age_days (cfg_thresholds cfg)) 90;
          old =
            (if age_days > max_age_days then
               [\<lparr> type = ''deployment_old'', severity = ''info'',
                  resource = namespace @ ''/'' @ name,
                  message = ''Deployment '' @ name @ '' is '' @ str_int age_days @ '' days old'',
                  timestamp = now_isoformat w \<rparr>]
             else [])
      in unhealthy @ old)"

definition check_deployment_health :: "config \<Rightarrow> world \<Rightarrow> string \<Rightarrow> exn + issue list" where
  "check_deployment_health cfg w namespace =
     (case list_namespaced_deployment w namespace of
        Inr items \<Rightarrow> Inr (foldl (\<lambda>issues d. issues @ deployment_issues cfg w namespace d) [] items)
      | Inl (ApiException e) \<Rightarrow> Inr [api_error_issue w namespace e]
      | Inl e \<Rightarrow> Inl e)"

text \<open>
  \<^verbatim>\<open>str(age)\<close> for a \<^verbatim>\<open>timedelta\<close> of whole seconds: \<^verbatim>\<open>H:MM:SS\<close>, preceded by the
  day count when it is not zero.
\<close>

definition two_digits :: "nat \<Rightarrow> string" where
  "two_digits n = (if n < 10 then CHR ''0'' # str_nat n else str_nat n)"

definition str_timedelta :: "int \<Rightarrow> string" where
  "str_timedelta t =
     (let days = t div 86400;
          seconds = nat (t mod 86400);
          mm = seconds div 60; ss = seconds mod 60;
          hh = mm div 60; mm' = mm mod 60;
          s = str_nat hh @ '':'' @ two_digits mm' @ '':'' @ two_digits ss
      in if days \<noteq> 0
         then str_int days @ '' day'' @ (if \<bar>days\<bar> \<noteq> 1 then ''s'' else []) @ '', '' @ s
         else s)"

text \<open>
  The body of the loop over \<^verbatim>\<open>pods.items\<close> in \<^verbatim>\<open>check_pod_health\<close>. The pending
  grace period is the literal 300 of the source.
\<close>

definition container_issues :: "config \<Rightarrow> world \<Rightarrow> string \<Rightarrow> string \<Rightarrow> container_status \<Rightarrow> issue list" where
  "container_issues cfg w namespace name cs =
     (let restart_count = int (restart_count cs);
          max_restarts = dict_get (max_container_restarts (cfg_thresholds cfg)) 5
      in if restart_count > max_restarts then
           [\<lparr> type = ''high_restart_count'', severity = ''warning'',
              resource = namespace @ ''/'' @ name @ ''/'' @ c_name cs,
              message = ''Container '' @ c_name cs @ '' has restarted '' @ str_int restart_count
                        @ '' times'',
              timestamp = now_isoformat w \<rparr>]
         else [])"

definition pod_issues :: "config \<Rightarrow> world \<Rightarrow> string \<Rightarrow> pod \<Rightarrow> issue list" where
  "pod_issues cfg w namespace p =
     (let name = p_name p;
          by_phase =
            (if phase p = ''Failed'' then
               [\<lparr> type = ''pod_failed'', severity = ''critical'',
                  resource = namespace @ ''/'' @ name,
                  message = ''Pod '' @ name @ '' is in Failed state'',
                  timestamp = now_isoformat w \<rparr>]
             else if phase p = ''Pending'' then
               (let age = now w - p_creation_timestamp p
                in if age > 300 then
                     [\<lparr> type = ''pod_pending'', severity = ''warning'',
                        resource = namespace @ ''/'' @ name,
                        message = ''Pod '' @ name @ '' has been pending for '' @ str_timedelta age,
                        timestamp = now_isoformat w \<rparr>]
                   else [])
             else []);
          by_restarts =
            (if container_statuses p \<noteq> [] then
               foldl (\<lambda>issues cs. issues @ container_issues cfg w namespace name cs) []
                 (container_statuses p)
             else [])
      in by_phase @ by_restarts)"

definition check_pod_health :: "config \<Rightarrow> world \<Rightarrow> string \<Rightarrow> exn + issue list" where
  "check_pod_health cfg w namespace =
     (case list_namespaced_pod w namespace of
        Inr items \<Rightarrow> Inr (foldl (\<lambda>issues p. issues @ pod_issues cfg w namespace p) [] items)
      | Inl (ApiException e) \<Rightarrow> Inr [api_error_issue w namespace e]
      | Inl e \<Rightarrow> Inl e)"

text \<open>
  \<^verbatim>\<open>f"{x:.1f}"\<close>: one digit after the point, ties to the even neighbour.
\<close>

definition fmt_1f :: "rat \<Rightarrow> string" where
  "fmt_1f r =
     (let t = round_half_even (\<bar>r\<bar> * 10);
          s = str_int (t div 10) @ ''.'' @ str_int (t mod 10)
      in if r < 0 then CHR ''-'' # s else s)"

text \<open>
  \<^verbatim>\<open>check_resource_usage\<close>. \<open>quota_values\<close> is the conversion of one
  \<^verbatim>\<open>(resource, hard_limit)\<close> item and its \<^verbatim>\<open>used\<close> value to comparable numbers;
  it raises what the parsers raise. \<open>usage_percent\<close> is the division and the
  multiplication, each rounded, on two floats or on two integers (whose true division
  is the rounded exact quotient). \<open>quota_issue\<close> is the threshold test on the
  percentage, with the literals 90 and 95 of the source, and \<open>quota_item_issues\<close> is
  the whole body of the inner loop.
\<close>

definition quota_values :: "string \<Rightarrow> string \<Rightarrow> string \<Rightarrow> exn + (rat \<times> rat)" where
  "quota_values res hard_limit used_str =
     (if endswith res ''.cpu'' then
        (case parse_cpu hard_limit of
           Inl e \<Rightarrow> Inl e
         | Inr hard_val \<Rightarrow>
             (case parse_cpu used_str of Inl e \<Rightarrow> Inl e | Inr used_val \<Rightarrow> Inr (hard_val, used_val)))
      else if endswith res ''.memory'' then
        (case parse_memory hard_limit of
           Inl e \<Rightarrow> Inl e
         | Inr hard_val \<Rightarrow>
             (case parse_memory used_str of
                Inl e \<Rightarrow> Inl e
              | Inr used_val \<Rightarrow> Inr (of_int hard_val, of_int used_val)))
      else
        (case py_int hard_limit of
           None \<Rightarrow> Inl ValueError
         | Some hard_val \<Rightarrow>
             (case py_int used_str of
                None \<Rightarrow> Inl ValueError
              | Some used_val \<Rightarrow> Inr (of_int hard_val, of_int used_val))))"

definition usage_percent :: "rat \<Rightarrow> rat \<Rightarrow> rat" where
  "usage_percent hard_val used_val =
     (if hard_val > 0 then binary64 (binary64 (used_val / hard_val) * 100) else 0)"

definition quota_issue :: "world \<Rightarrow> string \<Rightarrow> quota \<Rightarrow> string \<Rightarrow> string \<Rightarrow> string \<Rightarrow> rat \<Rightarrow> issue list" where
  "quota_issue w namespace q res hard_limit used_str pct =
     (if pct > 90 then
        [\<lparr> type = ''resource_quota_high'',
           severity = (if pct > 95 then ''critical'' else ''warning''),
           resource = namespace @ ''/'' @ q_name q @ ''/'' @ res,
           message = ''Resource quota '' @ res @ '' is '' @ fmt_1f pct @ ''% used (''
                     @ used_str @ ''/'' @ hard_limit @ '')'',
           timestamp = now_isoformat w \<rparr>]
      else [])"

definition quota_item_issues :: "world \<Rightarrow> string \<Rightarrow> quota \<Rightarrow> string \<times> string \<Rightarrow> exn + issue list" where
  "quota_item_issues w namespace q item =
     (let resource = fst item; hard_limit = snd item;
          used = dict_get (map_of (used q) resource) ''0''
      in case quota_values resource hard_limit used of
           Inl e \<Rightarrow> Inl e
         | Inr (hard_val, used_val) \<Rightarrow>
             Inr (quota_issue w namespace q resource hard_limit used
                    (usage_percent hard_val used_val)))"

fun quota_items_loop :: "world \<Rightarrow> string \<Rightarrow> quota \<Rightarrow> (string \<times> string) list \<Rightarrow> issue list \<Rightarrow> exn + issue list" where
  "quota_items_loop w namespace q [] issues = Inr issues"
| "quota_items_loop w namespace q (item # rest) issues =
     (case quota_item_issues w namespace q item of
        Inl e \<Rightarrow> Inl e
      | Inr new \<Rightarrow> quota_items_loop w namespace q rest (issues @ new))"

fun quotas_loop :: "world \<Rightarrow> string \<Rightarrow> quota list \<Rightarrow> issue list \<Rightarrow> exn + issue list" where
  "quotas_loop w namespace [] issues = Inr issues"
| "quotas_loop w namespace (q # rest) issues =
     (if hard q \<noteq> [] \<and> used q \<noteq> [] then
        (case quota_items_loop w namespace q (hard q) issues of
           Inl e \<Rightarrow> Inl e
         | Inr issues' \<Rightarrow> quotas_loop w namespace rest issues')
      else quotas_loop w namespace rest issues)"

text \<open>
  The handler of \<^verbatim>\<open>check_resource_usage\<close> catches \<^verbatim>\<open>ApiException\<close> only and does
  nothing but log; the list call is the first statement of the \<^verbatim>\<open>try\<close> block, so
  \<^verbatim>\<open>issues\<close> is still empty when the handler runs.
\<close>

definition check_resource_usage :: "world \<Rightarrow> string \<Rightarrow> exn + issue list" where
  "check_resource_usage w namespace =
     (case list_namespaced_resource_quota w namespace of
        Inr items \<Rightarrow> quotas_loop w namespace items []
      | Inl (ApiException e) \<Rightarrow> Inr []
      | Inl e \<Rightarrow> Inl e)"

text \<open>
  \<^verbatim>\<open>check_external_services\<close>: per service, a \<^verbatim>\<open>RequestException\<close> becomes an issue,
  any other exception leaves the loop.
\<close>

definition service_issues :: "world \<Rightarrow> service \<Rightarrow> exn + issue list" where
  "service_issues w service =
     (let timeout = dict_get (timeout service) 10;
          expected_status = dict_get (expected_status service) 200
      in case requests_get w (url service) timeout of
           Inr status_code \<Rightarrow>
             Inr (if status_code \<noteq> expected_status then
                    [\<lparr> type = ''external_service_unhealthy'', severity = ''critical'',
                       resource = s_name service,
                       message = ''Service '' @ s_name service @ '' returned status ''
                                 @ str_int status_code @ '', expected '' @ str_int expected_status,
                       timestamp = now_isoformat w \<rparr>]
                  else [])
         | Inl (RequestException e) \<Rightarrow>
             Inr [\<lparr> type = ''external_service_unreachable'', severity = ''critical'',
                    resource = s_name service,
                    message = ''Service '' @ s_name service @ '' is unreachable: '' @ e,
                    timestamp = now_isoformat w \<rparr>]
         | Inl e \<Rightarrow> Inl e)"

fun services_loop :: "world \<Rightarrow> service list \<Rightarrow> issue list \<Rightarrow> exn + issue list" where
  "services_loop w [] issues = Inr issues"
| "services_loop w (service # rest) issues =
     (case service_issues w service of
        Inl e \<Rightarrow> Inl e
      | Inr new \<Rightarrow> services_loop w rest (issues @ new))"

definition check_external_services :: "config \<Rightarrow> world \<Rightarrow> exn + issue list" where
  "check_external_services cfg w = services_loop w (external_services cfg) []"

text \<open>\<^verbatim>\<open>check_certificate_expiry\<close> lists the secrets and reports nothing.\<close>

definition check_certificate_expiry :: "world \<Rightarrow> string \<Rightarrow> exn + issue list" where
  "check_certificate_expiry w namespace =
     (case list_namespaced_secret w namespace of
        Inr items \<Rightarrow> Inr []
      | Inl (ApiException e) \<Rightarrow> Inr []
      | Inl e \<Rightarrow> Inl e)"

section \<open>Aggregation\<close>

definition bind_exn :: "exn + 'a \<Rightarrow> ('a \<Rightarrow> exn + 'b) \<Rightarrow> exn + 'b" where
  "bind_exn m f = (case m of Inl e \<Rightarrow> Inl e | Inr x \<Rightarrow> f x)"

record severity_buckets =
  critical :: "issue list"
  warning :: "issue list"
  info :: "issue list"

record health_report =
  report_timestamp :: string
  total_issues :: nat
  issues_by_severity :: severity_buckets
  all_issues :: "issue list"

text \<open>
  The loop over the namespaces in \<^verbatim>\<open>run_health_checks\<close>: four checks per namespace,
  in the order of the source, each extending \<^verbatim>\<open>all_issues\<close>. An exception that a check
  lets through leaves the loop and the function.
\<close>

fun namespaces_loop :: "config \<Rightarrow> world \<Rightarrow> string list \<Rightarrow> issue list \<Rightarrow> exn + issue list" where
  "namespaces_loop cfg w [] all = Inr all"
| "namespaces_loop cfg w (namespace # rest) all =
     bind_exn (check_deployment_health cfg w namespace) (\<lambda>ds.
     bind_exn (check_pod_health cfg w namespace) (\<lambda>ps.
     bind_exn (check_resource_usage w namespace) (\<lambda>rs.
     bind_exn (check_certificate_expiry w namespace) (\<lambda>cs.
       namespaces_loop cfg w rest (all @ ds @ ps @ rs @ cs)))))"

definition make_report :: "world \<Rightarrow> issue list \<Rightarrow> health_report" where
  "make_report w all =
     \<lparr> report_timestamp = now_isoformat w,
       total_issues = length all,
       issues_by_severity =
         \<lparr> critical = filter (\<lambda>i. severity i = ''critical'') all,
           warning = filter (\<lambda>i. severity i = ''warning'') all,
           info = filter (\<lambda>i. severity i = ''info'') all \<rparr>,
       all_issues = all \<rparr>"

definition run_health_checks :: "config \<Rightarrow> world \<Rightarrow> string list \<Rightarrow> exn + health_report" where
  "run_health_checks cfg w namespaces =
     bind_exn (namespaces_loop cfg w namespaces []) (\<lambda>issues.
     bind_exn (check_external_services cfg w) (\<lambda>ext.
       Inr (make_report w (issues @ ext))))"

section \<open>Alert formatting and dispatch\<close>

text \<open>
  Strings are byte lists; the two non-ASCII prefixes of the source's format strings are
  written as the bytes the file holds. \<^verbatim>\<open>severity.lower()\<close> is modelled on ASCII letters.
\<close>

definition nl :: string where
  "nl = [CHR 0x0A]"

definition alarm :: string where
  "alarm = [CHR 0xC3, CHR 0xB0, CHR 0xC5, CHR 0xB8, CHR 0xC5, CHR 0xA1, CHR 0xC2, CHR 0xA8]"

definition bullet :: string where
  "bullet = [CHR 0xC3, CHR 0xA2, CHR 0xE2, CHR 0x82, CHR 0xAC, CHR 0xC2, CHR 0xA2]"

definition lower_char :: "char \<Rightarrow> char" where
  "lower_char c =
     (case map_of (zip ''ABCDEFGHIJKLMNOPQRSTUVWXYZ'' ''abcdefghijklmnopqrstuvwxyz'') c of
        Some l \<Rightarrow> l
      | None \<Rightarrow> c)"

definition lower :: "string \<Rightarrow> string" where
  "lower s = map lower_char s"

definition format_issue :: "issue \<Rightarrow> string" where
  "format_issue i =
     bullet @ '' '' @ type i @ '': '' @ message i @ nl
     @ ''  Resource: '' @ resource i @ nl
     @ ''  Time: '' @ timestamp i @ nl @ nl"

definition format_alert_message :: "issue list \<Rightarrow> string \<Rightarrow> string" where
  "format_alert_message issues sev =
     (let m0 = alarm @ '' '' @ sev @ '' CI/CD Infrastructure Alert'' @ nl @ nl;
          m1 = m0 @ ''Found '' @ str_nat (length issues) @ '' '' @ lower sev @ '' issues:''
               @ nl @ nl;
          m2 = foldl (\<lambda>m i. m @ format_issue i) m1 (take 10 issues)
      in if length issues > 10
         then m2 @ ''... and '' @ str_nat (length issues - 10) @ '' more issues'' @ nl
         else m2)"

text \<open>
  The three senders of \<^verbatim>\<open>AlertManager\<close>. Each returns \<^verbatim>\<open>False\<close> at once when its
  channel is not enabled; otherwise it tries the transport, and every exception of the
  attempt is caught inside the sender, which then returns \<^verbatim>\<open>False\<close>. An \<open>attempt\<close>
  records that a sender went past its \<^verbatim>\<open>enabled\<close> guard, with what it was given.
\<close>

datatype attempt =
    Email string string "string list"
  | Slack string string
  | Webhook string "issue list" string

definition send_email_alert :: "alerts \<Rightarrow> world \<Rightarrow> string \<Rightarrow> string \<Rightarrow> string list \<Rightarrow> bool \<times> attempt list" where
  "send_email_alert al w subject msg recipients =
     (if \<not> dict_get (smtp_enabled al) False then (False, [])
      else (smtp_ok w, [Email subject msg recipients]))"

definition send_slack_alert :: "alerts \<Rightarrow> world \<Rightarrow> string \<Rightarrow> string option \<Rightarrow> bool \<times> attempt list" where
  "send_slack_alert al w msg channel =
     (if \<not> dict_get (slack_enabled al) False then (False, [])
      else
        (let channel' =
               (case channel of
                  Some c \<Rightarrow> if c \<noteq> [] then c else dict_get (slack_default_channel al) ''#alerts''
                | None \<Rightarrow> dict_get (slack_default_channel al) ''#alerts'')
         in (slack_ok w, [Slack msg channel'])))"

definition send_webhook_alert :: "alerts \<Rightarrow> world \<Rightarrow> string \<Rightarrow> issue list \<Rightarrow> string \<Rightarrow> bool \<times> attempt list" where
  "send_webhook_alert al w sev issues ts =
     (if \<not> dict_get (webhook_enabled al) False then (False, [])
      else (webhook_ok w, [Webhook sev issues ts]))"

text \<open>
  \<^verbatim>\<open>send_alerts\<close>. The result is the list of attempts in the order they are made, or
  the \<^verbatim>\<open>KeyError\<close> of \<^verbatim>\<open>config['alerts']['email']['recipients']\<close>, which is raised
  before any sender is called.
\<close>

definition send_critical :: "config \<Rightarrow> world \<Rightarrow> health_report \<Rightarrow> exn + attempt list" where
  "send_critical cfg w report =
     (let al = cfg_alerts cfg;
          critical_issues = critical (issues_by_severity report);
          msg = format_alert_message critical_issues ''CRITICAL''
      in bind_exn
           (if dict_get (email_critical al) False then
              (case email_recipients al of
                 None \<Rightarrow> Inl KeyError
               | Some recipients \<Rightarrow>
                   Inr (snd (send_email_alert al w ''CRITICAL: CI/CD Infrastructure Issues'' msg
                               recipients)))
            else Inr [])
           (\<lambda>by_email.
              Inr (by_email
                   @ (if dict_get (slack_critical al) False
                      then snd (send_slack_alert al w msg None) else [])
                   @ (if dict_get (webhook_critical al) False
                      then snd (send_webhook_alert al w ''critical'' critical_issues
                                  (report_timestamp report))
                      else []))))"

definition send_warning :: "config \<Rightarrow> world \<Rightarrow> health_report \<Rightarrow> attempt list" where
  "send_warning cfg w report =
     (let al = cfg_alerts cfg;
          warning_issues = warning (issues_by_severity report);
          msg = format_alert_message warning_issues ''WARNING''
      in if dict_get (slack_warning al) False then snd (send_slack_alert al w msg None) else [])"

definition send_alerts :: "config \<Rightarrow> world \<Rightarrow> health_report \<Rightarrow> exn + attempt list" where
  "send_alerts cfg w report =
     (let critical_issues = critical (issues_by_severity report);
          warning_issues = warning (issues_by_severity report)
      in bind_exn (if critical_issues \<noteq> [] then send_critical cfg w report else Inr [])
           (\<lambda>first.
              Inr (first
                   @ (if warning_issues \<noteq> [] \<and> dict_get (send_warnings (cfg_alerts cfg)) True
                      then send_warning cfg w report else []))))"

section \<open>The scheduler: \<^verbatim>\<open>main\<close>\<close>

text \<open>
  The parsed command line. \<^verbatim>\<open>--config\<close> is a path; what constructing the monitor
  from it yields (the loaded configuration, or the exception of a failed load or client
  set-up) is the argument \<open>init\<close> of \<open>main\<close> below.
\<close>

record args =
  namespaces :: "string list"
  once :: bool
  interval :: int
  output_file :: "string option"

text \<open>
  What \<^verbatim>\<open>main\<close> does that can be seen from outside, in order: sender attempts, the
  report written or printed, its own log lines, and every \<^verbatim>\<open>time.sleep\<close> that returned.
  The log lines written inside the checks are not traced.
\<close>

datatype event =
    Attempted attempt
  | Wrote string health_report
  | Printed health_report
  | LogInfo string
  | LogError string exn
  | Slept int

datatype loop_result = Raised exn | StillRunning

datatype outcome = Exit int | Running

text \<open>\<^verbatim>\<open>if args.output:\<close> holds for a path that is given and not empty.\<close>

definition output_path :: "args \<Rightarrow> string option" where
  "output_path a = (case output_file a of None \<Rightarrow> None | Some p \<Rightarrow> if p = [] then None else Some p)"

text \<open>
  The \<^verbatim>\<open>--once\<close> branch: evaluate, write or print the report, dispatch. The result is
  the events so far and the exception that ended the branch, if one did.
\<close>

definition single_shot :: "config \<Rightarrow> world \<Rightarrow> args \<Rightarrow> event list \<times> exn option" where
  "single_shot cfg w a =
     (case run_health_checks cfg w (namespaces a) of
        Inl e \<Rightarrow> ([], Some e)
      | Inr report \<Rightarrow>
          (case output_path a of
             Some p \<Rightarrow>
               (case write_report w of
                  Some e \<Rightarrow> ([], Some e)
                | None \<Rightarrow>
                    (case send_alerts cfg w report of
                       Inl e \<Rightarrow> ([Wrote p report, LogInfo (''Health report saved to '' @ p)], Some e)
                     | Inr sent \<Rightarrow>
                         ([Wrote p report, LogInfo (''Health report saved to '' @ p)]
                          @ map Attempted sent, None)))
           | None \<Rightarrow>
               (case send_alerts cfg w report of
                  Inl e \<Rightarrow> ([Printed report], Some e)
                | Inr sent \<Rightarrow> ([Printed report] @ map Attempted sent, None))))"

text \<open>
  The \<^verbatim>\<open>try\<close> block of one pass of the \<^verbatim>\<open>while True\<close> loop: evaluate, dispatch,
  write the report when a path is given, log the count.
\<close>

definition cycle :: "config \<Rightarrow> world \<Rightarrow> args \<Rightarrow> event list \<times> exn option" where
  "cycle cfg w a =
     (case run_health_checks cfg w (namespaces a) of
        Inl e \<Rightarrow> ([], Some e)
      | Inr report \<Rightarrow>
          (case send_alerts cfg w report of
             Inl e \<Rightarrow> ([], Some e)
           | Inr sent \<Rightarrow>
               (let completed = LogInfo (''Health check completed. Found ''
                                         @ str_nat (total_issues report) @ '' issues.'')
                in case output_path a of
                     Some p \<Rightarrow>
                       (case write_report w of
                          Some e \<Rightarrow> (map Attempted sent, Some e)
                        | None \<Rightarrow> (map Attempted sent @ [Wrote p report, completed], None))
                   | None \<Rightarrow> (map Attempted sent @ [completed], None))))"

text \<open>
  The loop itself. The outside world of cycle \<open>k\<close> is \<open>ws k\<close>. The loop has no exit
  of its own, so the model runs it for a given number of passes and answers
  \<open>StillRunning\<close> when they are used up; \<open>Raised e\<close> is an exception leaving the loop.
  Inside a pass, \<^verbatim>\<open>except Exception\<close> catches and logs every exception of the
  \<^verbatim>\<open>try\<close> block but \<^verbatim>\<open>KeyboardInterrupt\<close>; \<^verbatim>\<open>time.sleep\<close> is outside the block.
\<close>

fun monitor_loop :: "config \<Rightarrow> args \<Rightarrow> (nat \<Rightarrow> world) \<Rightarrow> nat \<Rightarrow> nat \<Rightarrow> event list \<times> loop_result" where
  "monitor_loop cfg a ws k 0 = ([], StillRunning)"
| "monitor_loop cfg a ws k (Suc n) =
     (let (evs, r) = cycle cfg (ws k) a;
          caught =
            (case r of
               None \<Rightarrow> Inr evs
             | Some e \<Rightarrow>
                 if is_Exception e then Inr (evs @ [LogError ''Health check failed'' e])
                 else Inl (evs, e))
      in case caught of
           Inl (evs', e) \<Rightarrow> (evs', Raised e)
         | Inr evs' \<Rightarrow>
             (case sleep (ws k) of
                Some e \<Rightarrow> (evs', Raised e)
              | None \<Rightarrow>
                  (let (later, res) = monitor_loop cfg a ws (Suc k) n
                   in (evs' @ [Slept (interval a)] @ later, res))))"

text \<open>
  The two outer handlers of \<^verbatim>\<open>main\<close> and the return value: \<^verbatim>\<open>KeyboardInterrupt\<close>
  is logged and falls through to \<^verbatim>\<open>return 0\<close>, any other exception returns 1.
\<close>

definition handler :: "event list \<Rightarrow> exn \<Rightarrow> event list \<times> outcome" where
  "handler evs e =
     (if e = KeyboardInterrupt then (evs @ [LogInfo ''Monitoring stopped by user''], Exit 0)
      else (evs @ [LogError ''Monitor failed'' e], Exit 1))"

definition main :: "exn + config \<Rightarrow> args \<Rightarrow> (nat \<Rightarrow> world) \<Rightarrow> nat \<Rightarrow> event list \<times> outcome" where
  "main init a ws passes =
     (case init of
        Inl e \<Rightarrow> handler [] e
      | Inr cfg \<Rightarrow>
          if once a then
            (case single_shot cfg (ws 0) a of
               (evs, None) \<Rightarrow> (evs, Exit 0)
             | (evs, Some e) \<Rightarrow> handler evs e)
          else
            (let start = LogInfo (''Starting continuous monitoring with ''
                                  @ str_int (interval a) @ ''s interval'')
             in case monitor_loop cfg a ws 0 passes of
                  (evs, StillRunning) \<Rightarrow> (start # evs, Running)
                | (evs, Raised e) \<Rightarrow> handler (start # evs) e))"

section \<open>Vocabulary of the properties and concrete inputs\<close>

text \<open>A replica-deficit issue is one of type \<^verbatim>\<open>deployment_unhealthy\<close>; an API-error issue is
  one of type \<^verbatim>\<open>api_error\<close>.\<close>

definition is_replica_deficit :: "issue \<Rightarrow> bool" where
  "is_replica_deficit i = (type i = ''deployment_unhealthy'')"

definition is_api_error :: "issue \<Rightarrow> bool" where
  "is_api_error i = (type i = ''api_error'')"

text \<open>The events of a trace that are completed sleeps.\<close>

fun is_slept :: "event \<Rightarrow> bool" where
  "is_slept (Slept n) = True"
| "is_slept e = False"

text \<open>
  A configuration file that sets nothing, and an outside world in which every collector
  call returns an empty list and nothing fails. The concrete inputs below change them
  where needed.
\<close>

definition no_thresholds :: thresholds where
  "no_thresholds =
     \<lparr> max_deployment_age_days = None, max_container_restarts = None,
       pod_pending_grace_seconds = None, quota_warning_pct = None, quota_critical_pct = None \<rparr>"

definition no_alerts :: alerts where
  "no_alerts =
     \<lparr> smtp_enabled = None, email_critical = None, email_warning = None,
       email_recipients = None, slack_enabled = None, slack_critical = None,
       slack_warning = None, slack_default_channel = None, webhook_enabled = None,
       webhook_critical = None, webhook_warning = None, send_warnings = None \<rparr>"

definition empty_config :: config where
  "empty_config =
     \<lparr> cfg_thresholds = no_thresholds, cfg_alerts = no_alerts, external_services = [] \<rparr>"

definition quiet_world :: world where
  "quiet_world =
     \<lparr> list_namespaced_deployment = (\<lambda>ns. Inr []),
       list_namespaced_pod = (\<lambda>ns. Inr []),
       list_namespaced_resource_quota = (\<lambda>ns. Inr []),
       list_namespaced_secret = (\<lambda>ns. Inr ()),
       requests_get = (\<lambda>u t. Inr 200),
       now = 1000, now_isoformat = ''2024-05-01T12:00:00'',
       smtp_ok = True, slack_ok = True, webhook_ok = True,
       write_report = None, sleep = None \<rparr>"

text \<open>Three deployments with 0/3, 2/3 and 3/3 ready replicas, and the world that lists them.\<close>

definition web :: "nat option \<Rightarrow> nat option \<Rightarrow> deployment" where
  "web desired ready =
     \<lparr> d_name = ''web'', spec_replicas = desired, ready_replicas = ready,
       available_replicas = ready, d_creation_timestamp = 0 \<rparr>"

definition three_deployments :: "deployment list" where
  "three_deployments = [web (Some 3) (Some 0), web (Some 3) (Some 2), web (Some 3) (Some 3)]"

definition three_deployments_world :: world where
  "three_deployments_world =
     quiet_world \<lparr> list_namespaced_deployment := (\<lambda>ns. Inr three_deployments) \<rparr>"

text \<open>A world that lists two deployments with unset counts: one without a desired
  count, one with 3 desired replicas and no ready count.\<close>

definition unset_counts_world :: world where
  "unset_counts_world =
     quiet_world
       \<lparr> list_namespaced_deployment := (\<lambda>ns. Inr [web None (Some 2), web (Some 3) None]) \<rparr>"

text \<open>Fifteen warning issues.\<close>

definition sample_issue :: issue where
  "sample_issue =
     \<lparr> type = ''pod_pending'', severity = ''warning'', resource = ''ns/p'',
       message = ''Pod p has been pending for 0:06:00'', timestamp = ''2024-05-01T12:00:00'' \<rparr>"

definition fifteen_issues :: "issue list" where
  "fifteen_issues = replicate 15 sample_issue"

text \<open>
  A resource quota with one CPU item, and the world that lists it in every namespace.
\<close>

definition cpu_quota :: "string \<Rightarrow> string \<Rightarrow> quota" where
  "cpu_quota h u =
     \<lparr> q_name = ''compute'', hard = [(''requests.cpu'', h)], used = [(''requests.cpu'', u)] \<rparr>"

definition quota_world :: "string \<Rightarrow> string \<Rightarrow> world" where
  "quota_world h u =
     quiet_world \<lparr> list_namespaced_resource_quota := (\<lambda>ns. Inr [cpu_quota h u]) \<rparr>"




text \<open>
  A world in which listing the resource quotas of \<^verbatim>\<open>payments\<close> fails with an
  \<^verbatim>\<open>ApiException\<close>, while \<^verbatim>\<open>billing\<close> has a deployment with 0 of 3 replicas ready.
\<close>

definition payments_down_world :: world where
  "payments_down_world =
     quiet_world
       \<lparr> list_namespaced_deployment :=
           (\<lambda>ns. if ns = ''billing'' then Inr [web (Some 3) (Some 0)] else Inr []),
         list_namespaced_resource_quota :=
           (\<lambda>ns. if ns = ''payments'' then Inl (ApiException ''(503) Service Unavailable'')
                  else Inr []) \<rparr>"

text \<open>
  A configuration in which e-mail and webhook are enabled and carry a warning gate, and
  a report whose only issue is a warning.
\<close>

definition warning_gates_config :: config where
  "warning_gates_config =
     empty_config \<lparr> cfg_alerts :=
       no_alerts \<lparr> smtp_enabled := Some True, email_warning := Some True,
                   email_recipients := Some [''ops@example.com''],
                   webhook_enabled := Some True, webhook_warning := Some True,
                   send_warnings := Some True \<rparr> \<rparr>"

definition slack_warning_config :: config where
  "slack_warning_config =
     empty_config \<lparr> cfg_alerts :=
       no_alerts \<lparr> slack_enabled := Some True, slack_warning := Some True \<rparr> \<rparr>"

definition warning_report :: health_report where
  "warning_report = make_report quiet_world [sample_issue]"

text \<open>Command lines: single-shot and continuous, the latter with a report file.\<close>

definition once_args :: args where
  "once_args = \<lparr> namespaces = [''prod''], once = True, interval = 300, output_file = None \<rparr>"

definition loop_args :: args where
  "loop_args =
     \<lparr> namespaces = [''prod''], once = False, interval = 300,
       output_file = Some ''/tmp/report.json'' \<rparr>"

text \<open>
  A configuration whose critical e-mail gate is set without a recipients list, and a
  sequence of cycles that fail in turn: a malformed quantity in the evaluation, the
  missing recipients in the dispatch, and from then on the report file.
\<close>

definition no_recipients_config :: config where
  "no_recipients_config =
     empty_config \<lparr> cfg_alerts := no_alerts \<lparr> email_critical := Some True \<rparr> \<rparr>"

definition failing_cycles :: "nat \<Rightarrow> world" where
  "failing_cycles k =
     (if k = 0 then quota_world ''abc'' ''1''
      else if k = 1 then three_deployments_world
      else quiet_world \<lparr> write_report := Some OSError \<rparr>)"

section \<open>Evaluation and auxiliary lemmas\<close>



lemmas parser_defs = parse_memory_def parse_cpu_def units_def endswith_def drop_last_def
  py_float_unsigned_def py_int_unsigned_def all_digits_def is_digit_def digits_val_def
  digit_val_def int_of_float_def

lemma str_nat_numeral:
  "str_nat (numeral k) =
     (if numeral k < (10::nat) then [digit_char (numeral k)]
      else str_nat (numeral k div 10) @ [digit_char (numeral k mod 10)])"
  by (rule str_nat.simps)

lemma str_nat_0: "str_nat 0 = ''0''"
  by (simp add: str_nat.simps digit_char_def)

lemma str_nat_1: "str_nat (Suc 0) = ''1''"
  by (simp add: str_nat.simps digit_char_def)

lemmas str_simps = str_nat_numeral str_nat_0 str_nat_1 digit_char_def str_int_def

lemmas example_defs = no_thresholds_def no_alerts_def empty_config_def quiet_world_def






text \<open>A loop that appends to an accumulator yields the accumulator followed by what each
  pass appended.\<close>

lemma foldl_append_concat: "foldl (\<lambda>acc x. acc @ f x) acc xs = acc @ concat (map f xs)"
  by (induction xs arbitrary: acc) simp_all

lemma check_deployment_health_items:
  "list_namespaced_deployment w ns = Inr ds \<Longrightarrow>
   check_deployment_health cfg w ns = Inr (concat (map (deployment_issues cfg w ns) ds))"
  by (simp add: check_deployment_health_def foldl_append_concat)

lemma check_pod_health_items:
  "list_namespaced_pod w ns = Inr ps \<Longrightarrow>
   check_pod_health cfg w ns = Inr (concat (map (pod_issues cfg w ns) ps))"
  by (simp add: check_pod_health_def foldl_append_concat)

lemma deficit_severities:
  "map severity (filter is_replica_deficit (deployment_issues cfg w ns d)) =
     (if dict_get (ready_replicas d) 0 < dict_get (spec_replicas d) 0
      then [if dict_get (ready_replicas d) 0 = 0 then ''critical'' else ''warning'']
      else [])"
  by (simp add: deployment_issues_def is_replica_deficit_def Let_def)

lemmas check_defs = check_deployment_health_def check_pod_health_def check_resource_usage_def
  check_certificate_expiry_def check_external_services_def run_health_checks_def bind_exn_def
  make_report_def deployment_issues_def quota_item_issues_def quota_values_def
  usage_percent_def quota_issue_def dict_get_def Let_def

lemmas world_defs = example_defs web_def three_deployments_def three_deployments_world_def
  cpu_quota_def quota_world_def payments_down_world_def

text \<open>What the three collector handlers do with an \<^verbatim>\<open>ApiException\<close>.\<close>

lemma deployment_api_failure_becomes_issue:
  "list_namespaced_deployment w ns = Inl (ApiException m) \<Longrightarrow>
   check_deployment_health cfg w ns = Inr [api_error_issue w ns m]"
  by (simp add: check_deployment_health_def)

lemma pod_api_failure_becomes_issue:
  "list_namespaced_pod w ns = Inl (ApiException m) \<Longrightarrow>
   check_pod_health cfg w ns = Inr [api_error_issue w ns m]"
  by (simp add: check_pod_health_def)

lemma quota_api_failure_is_silent:
  "list_namespaced_resource_quota w ns = Inl (ApiException m) \<Longrightarrow>
   check_resource_usage w ns = Inr []"
  by (simp add: check_resource_usage_def)








lemma quota_issue_severities:
  "map severity (quota_issue w ns q res h u pct) =
     (if 95 < pct then [''critical''] else if 90 < pct then [''warning''] else [])"
  by (simp add: quota_issue_def)

text \<open>The loop of the continuous mode.\<close>

lemmas cycle_defs = cycle_def single_shot_def output_path_def send_alerts_def send_critical_def
  send_warning_def

lemma no_slept_in_attempts: "filter is_slept (map Attempted sent) = []"
  by (induction sent) simp_all

lemma no_slept_in_cycle: "filter is_slept (fst (cycle cfg w a)) = []"
  by (simp add: cycle_def Let_def no_slept_in_attempts split: sum.splits option.splits)

lemma continuous_caught:
  assumes "cycle cfg (ws k) a = (evs, Some e)" and "is_Exception e" and "sleep (ws k) = None"
  shows "monitor_loop cfg a ws k (Suc n) =
     (evs @ [LogError ''Health check failed'' e, Slept (interval a)]
        @ fst (monitor_loop cfg a ws (Suc k) n),
      snd (monitor_loop cfg a ws (Suc k) n))"
  using assms by (simp add: Let_def split: prod.splits)

lemma continuous_keeps_running:
  "(\<forall>j<n. sleep (ws (k + j)) = None \<and> snd (cycle cfg (ws (k + j)) a) \<noteq> Some KeyboardInterrupt)
   \<Longrightarrow> snd (monitor_loop cfg a ws k n) = StillRunning
       \<and> filter is_slept (fst (monitor_loop cfg a ws k n)) = replicate n (Slept (interval a))"
proof (induction n arbitrary: k)
  case 0
  then show ?case by simp
next
  case (Suc n)
  from Suc.prems have here: "sleep (ws k) = None"
      "snd (cycle cfg (ws k) a) \<noteq> Some KeyboardInterrupt"
    by (auto dest: spec [of _ 0])
  have "\<forall>j<n. sleep (ws (Suc k + j)) = None
          \<and> snd (cycle cfg (ws (Suc k + j)) a) \<noteq> Some KeyboardInterrupt"
  proof (intro allI impI)
    fix j assume "j < n"
    then have "Suc j < Suc n" by simp
    with Suc.prems have "sleep (ws (k + Suc j)) = None
          \<and> snd (cycle cfg (ws (k + Suc j)) a) \<noteq> Some KeyboardInterrupt"
      by blast
    then show "sleep (ws (Suc k + j)) = None
          \<and> snd (cycle cfg (ws (Suc k + j)) a) \<noteq> Some KeyboardInterrupt"
      by simp
  qed
  from Suc.IH [OF this] have later:
    "snd (monitor_loop cfg a ws (Suc k) n) = StillRunning"
    "filter is_slept (fst (monitor_loop cfg a ws (Suc k) n)) = replicate n (Slept (interval a))"
    by simp_all
  obtain evs r where c: "cycle cfg (ws k) a = (evs, r)"
    by (cases "cycle cfg (ws k) a")
  with no_slept_in_cycle [of cfg "ws k" a] have quiet: "filter is_slept evs = []"
    by simp
  from c here later quiet show ?case
    by (cases r) (auto simp add: Let_def is_Exception_def split: prod.splits)
qed

lemma continuous_exit_cause:
  "snd (monitor_loop cfg a ws k n) = Raised e
   \<Longrightarrow> \<exists>j<n. (snd (cycle cfg (ws (k + j)) a) = Some KeyboardInterrupt \<and> e = KeyboardInterrupt)
            \<or> sleep (ws (k + j)) = Some e"
proof (induction n arbitrary: k)
  case 0
  then show ?case by simp
next
  case (Suc n)
  obtain evs r where c: "cycle cfg (ws k) a = (evs, r)"
    by (cases "cycle cfg (ws k) a")
  show ?case
  proof (cases "(r = Some KeyboardInterrupt \<and> e = KeyboardInterrupt) \<or> sleep (ws k) = Some e")
    case True
    with c have "(snd (cycle cfg (ws (k + 0)) a) = Some KeyboardInterrupt \<and> e = KeyboardInterrupt)
            \<or> sleep (ws (k + 0)) = Some e"
      by simp
    then show ?thesis by blast
  next
    case False
    with Suc.prems c have "snd (monitor_loop cfg a ws (Suc k) n) = Raised e"
      by (auto simp add: Let_def is_Exception_def split: prod.splits option.splits if_splits)
    from Suc.IH [OF this] obtain j where "j < n"
      "(snd (cycle cfg (ws (Suc k + j)) a) = Some KeyboardInterrupt \<and> e = KeyboardInterrupt)
            \<or> sleep (ws (Suc k + j)) = Some e"
      by blast
    then have "Suc j < Suc n \<and>
      ((snd (cycle cfg (ws (k + Suc j)) a) = Some KeyboardInterrupt \<and> e = KeyboardInterrupt)
            \<or> sleep (ws (k + Suc j)) = Some e)"
      by simp
    then show ?thesis by blast
  qed
qed

text \<open>A single-shot run that raises nothing returns 0.\<close>

lemma single_shot_completes_exit_0:
  "once a \<Longrightarrow> snd (single_shot cfg (ws 0) a) = None \<Longrightarrow> snd (main (Inr cfg) a ws n) = Exit 0"
  by (cases "single_shot cfg (ws 0) a") (simp add: main_def)

text \<open>The cycles of \<open>failing_cycles\<close>.\<close>

lemma failing_cycles_sleep: "sleep (failing_cycles j) = None"
  by (simp add: failing_cycles_def world_defs)

lemma failing_cycle_0:
  "cycle no_recipients_config (failing_cycles 0) loop_args = ([], Some ValueError)"
  by (simp add: failing_cycles_def cycle_defs check_defs world_defs parser_defs loop_args_def)

lemma failing_cycle_1:
  "cycle no_recipients_config (failing_cycles (Suc 0)) loop_args = ([], Some KeyError)"
  by (simp add: failing_cycles_def cycle_defs check_defs world_defs loop_args_def
      no_recipients_config_def)

lemma failing_cycle_later:
  "j \<noteq> 0 \<Longrightarrow> j \<noteq> Suc 0 \<Longrightarrow>
   cycle no_recipients_config (failing_cycles j) loop_args = ([], Some OSError)"
  by (simp add: failing_cycles_def cycle_defs check_defs world_defs loop_args_def
      no_recipients_config_def)

lemma failing_cycles_never_interrupt:
  "snd (cycle no_recipients_config (failing_cycles j) loop_args) \<noteq> Some KeyboardInterrupt"
proof (cases "j = 0")
  case True
  then show ?thesis by (simp add: failing_cycle_0)
next
  case False
  then show ?thesis
    by (cases "j = Suc 0") (simp_all add: failing_cycle_1 failing_cycle_later)
qed

text \<open>Unset replica counts of a single deployment.\<close>

lemma unset_ready_is_critical:
  assumes "spec_replicas d = Some n" and "0 < n" and "ready_replicas d = None"
  shows "\<exists>i \<in> set (deployment_issues cfg w ns d).
           is_replica_deficit i \<and> severity i = ''critical''
           \<and> resource i = ns @ ''/'' @ d_name d"
  using assms by (simp add: deployment_issues_def is_replica_deficit_def dict_get_def Let_def)

lemma unset_desired_no_deficit:
  "spec_replicas d = None \<Longrightarrow> filter is_replica_deficit (deployment_issues cfg w ns d) = []"
  by (simp add: deployment_issues_def is_replica_deficit_def dict_get_def Let_def)







section \<open>Properties of the quantity parser\<close>



section \<open>Properties of the deployment rule\<close>

text \<open>
  C7. When the deployments of a namespace can be listed, the check returns the issues of
  the listed deployments one after the other, and each deployment contributes a
  replica-deficit issue exactly when its ready count is below its desired count: one such
  issue, critical when the ready count is 0 and warning otherwise; none when ready is at
  least desired.
\<close>

theorem replica_deficit_rule:
  assumes "list_namespaced_deployment w ns = Inr ds"
  shows "check_deployment_health cfg w ns = Inr (concat (map (deployment_issues cfg w ns) ds))
    \<and> (\<forall>d \<in> set ds.
          map severity (filter is_replica_deficit (deployment_issues cfg w ns d)) =
            (if dict_get (ready_replicas d) 0 < dict_get (spec_replicas d) 0
             then [if dict_get (ready_replicas d) 0 = 0 then ''critical'' else ''warning'']
             else []))"
  using assms by (simp add: check_deployment_health_items deficit_severities)

theorem replica_deficit_rule_witness:
  "list_namespaced_deployment three_deployments_world ''prod'' = Inr three_deployments
   \<and> map (\<lambda>d. map severity (filter is_replica_deficit
                 (deployment_issues empty_config three_deployments_world ''prod'' d)))
        three_deployments
      = [[''critical''], [''warning''], []]"
proof -
  have l: "list_namespaced_deployment three_deployments_world ''prod'' = Inr three_deployments"
    by (simp add: three_deployments_world_def)
  from replica_deficit_rule [OF l, of empty_config] l show ?thesis
    by (simp add: three_deployments_def web_def dict_get_def)
qed

text \<open>
  C10. A deployment whose desired, ready or available count is unset does not make the
  check fail, and the check treats the unset count as 0. When the deployments of the
  namespace can be listed, \<^verbatim>\<open>check_deployment_health\<close> returns the issues of the listed
  deployments one after the other, and the issues of a deployment are those of the same
  deployment with 0 in place of each unset count. So an unset desired count gives no
  replica-deficit issue and a positive desired count with an unset ready count gives a
  critical one; and of the check itself: when no listed deployment has a desired count
  it returns no replica-deficit issue, and when a listed deployment has a positive
  desired count and no ready count it returns a critical replica-deficit issue for that
  deployment.
\<close>

theorem absent_replica_counts_are_zero:
  "(list_namespaced_deployment w ns = Inr ds \<longrightarrow>
      check_deployment_health cfg w ns = Inr (concat (map (deployment_issues cfg w ns) ds)))
   \<and> deployment_issues cfg w ns d =
       deployment_issues cfg w ns
         (d \<lparr> spec_replicas := Some (dict_get (spec_replicas d) 0),
              ready_replicas := Some (dict_get (ready_replicas d) 0),
              available_replicas := Some (dict_get (available_replicas d) 0) \<rparr>)
   \<and> (spec_replicas d = None \<longrightarrow>
        filter is_replica_deficit (deployment_issues cfg w ns d) = [])
   \<and> (spec_replicas d = Some n \<and> 0 < n \<and> ready_replicas d = None \<longrightarrow>
        map severity (filter is_replica_deficit (deployment_issues cfg w ns d)) = [''critical''])
   \<and> (list_namespaced_deployment w ns = Inr ds \<and> (\<forall>x \<in> set ds. spec_replicas x = None) \<longrightarrow>
        (\<exists>issues. check_deployment_health cfg w ns = Inr issues
           \<and> filter is_replica_deficit issues = []))
   \<and> (list_namespaced_deployment w ns = Inr ds \<and> d \<in> set ds
        \<and> spec_replicas d = Some n \<and> 0 < n \<and> ready_replicas d = None \<longrightarrow>
        (\<exists>issues. check_deployment_health cfg w ns = Inr issues
           \<and> (\<exists>i \<in> set issues. is_replica_deficit i \<and> severity i = ''critical''
                  \<and> resource i = ns @ ''/'' @ d_name d)))"
proof -
  have link: "list_namespaced_deployment w ns = Inr ds \<longrightarrow>
      check_deployment_health cfg w ns = Inr (concat (map (deployment_issues cfg w ns) ds))"
    by (simp add: check_deployment_health_items)
  have zero: "deployment_issues cfg w ns d =
       deployment_issues cfg w ns
         (d \<lparr> spec_replicas := Some (dict_get (spec_replicas d) 0),
              ready_replicas := Some (dict_get (ready_replicas d) 0),
              available_replicas := Some (dict_get (available_replicas d) 0) \<rparr>)"
    by (simp add: deployment_issues_def dict_get_def)
  have unset: "spec_replicas d = None \<longrightarrow>
        filter is_replica_deficit (deployment_issues cfg w ns d) = []"
    by (simp add: unset_desired_no_deficit)
  have crit: "spec_replicas d = Some n \<and> 0 < n \<and> ready_replicas d = None \<longrightarrow>
        map severity (filter is_replica_deficit (deployment_issues cfg w ns d)) = [''critical'']"
    by (simp add: deficit_severities dict_get_def)
  have none: "list_namespaced_deployment w ns = Inr ds \<and> (\<forall>x \<in> set ds. spec_replicas x = None) \<longrightarrow>
        (\<exists>issues. check_deployment_health cfg w ns = Inr issues
           \<and> filter is_replica_deficit issues = [])"
    by (simp add: check_deployment_health_items filter_concat unset_desired_no_deficit)
  have reported: "list_namespaced_deployment w ns = Inr ds \<and> d \<in> set ds
        \<and> spec_replicas d = Some n \<and> 0 < n \<and> ready_replicas d = None \<longrightarrow>
        (\<exists>issues. check_deployment_health cfg w ns = Inr issues
           \<and> (\<exists>i \<in> set issues. is_replica_deficit i \<and> severity i = ''critical''
                  \<and> resource i = ns @ ''/'' @ d_name d))"
  proof
    assume h: "list_namespaced_deployment w ns = Inr ds \<and> d \<in> set ds
        \<and> spec_replicas d = Some n \<and> 0 < n \<and> ready_replicas d = None"
    then obtain i where i: "i \<in> set (deployment_issues cfg w ns d)"
        "is_replica_deficit i \<and> severity i = ''critical'' \<and> resource i = ns @ ''/'' @ d_name d"
      using unset_ready_is_critical [of d n cfg w ns] by blast
    from h i have "i \<in> set (concat (map (deployment_issues cfg w ns) ds))"
      by auto
    with h i show "\<exists>issues. check_deployment_health cfg w ns = Inr issues
           \<and> (\<exists>i \<in> set issues. is_replica_deficit i \<and> severity i = ''critical''
                  \<and> resource i = ns @ ''/'' @ d_name d)"
      using check_deployment_health_items [of w ns ds cfg] by blast
  qed
  from link zero unset crit none reported show ?thesis by blast
qed

theorem absent_replica_counts_are_zero_witness:
  "list_namespaced_deployment unset_counts_world ''prod''
     = Inr [web None (Some 2), web (Some 3) None]
   \<and> web (Some 3) None \<in> set [web None (Some 2), web (Some 3) None]
   \<and> spec_replicas (web (Some 3) None) = Some 3 \<and> (0::nat) < 3
   \<and> ready_replicas (web (Some 3) None) = None
   \<and> check_deployment_health empty_config unset_counts_world ''prod''
      = Inr (concat (map (deployment_issues empty_config unset_counts_world ''prod'')
               [web None (Some 2), web (Some 3) None]))
   \<and> (\<exists>issues. check_deployment_health empty_config unset_counts_world ''prod'' = Inr issues
         \<and> (\<exists>i \<in> set issues. is_replica_deficit i \<and> severity i = ''critical''
                \<and> resource i = ''prod'' @ ''/'' @ d_name (web (Some 3) None)))
   \<and> map (\<lambda>i. (resource i, severity i))
        (filter is_replica_deficit
           (concat (map (deployment_issues empty_config unset_counts_world ''prod'')
                      [web None (Some 2), web (Some 3) None])))
      = [(''prod/web'', ''critical'')]"
proof -
  note A = absent_replica_counts_are_zero
    [where w = unset_counts_world and ns = "''prod''" and cfg = empty_config
       and ds = "[web None (Some 2), web (Some 3) None]" and d = "web (Some 3) None" and n = 3]
  have l: "list_namespaced_deployment unset_counts_world ''prod''
     = Inr [web None (Some 2), web (Some 3) None]"
    by (simp add: unset_counts_world_def)
  have m: "web (Some 3) None \<in> set [web None (Some 2), web (Some 3) None]"
    by simp
  have s: "spec_replicas (web (Some 3) None) = Some 3 \<and> (0::nat) < 3
      \<and> ready_replicas (web (Some 3) None) = None"
    by (simp add: web_def)
  from A l have a: "check_deployment_health empty_config unset_counts_world ''prod''
      = Inr (concat (map (deployment_issues empty_config unset_counts_world ''prod'')
               [web None (Some 2), web (Some 3) None]))"
    by blast
  from A l m s have b: "\<exists>issues. check_deployment_health empty_config unset_counts_world ''prod''
         = Inr issues
         \<and> (\<exists>i \<in> set issues. is_replica_deficit i \<and> severity i = ''critical''
                \<and> resource i = ''prod'' @ ''/'' @ d_name (web (Some 3) None))"
    by blast
  have c: "map (\<lambda>i. (resource i, severity i))
        (filter is_replica_deficit
           (concat (map (deployment_issues empty_config unset_counts_world ''prod'')
                      [web None (Some 2), web (Some 3) None])))
      = [(''prod/web'', ''critical'')]"
    by (simp add: deployment_issues_def is_replica_deficit_def web_def dict_get_def Let_def)
  from l m s a b c show ?thesis by blast
qed

section \<open>Properties of the quota rule\<close>




text \<open>
  C4. A quota whose CPU hard limit is the malformed quantity \<^verbatim>\<open>abc\<close>: the parser raises
  \<^verbatim>\<open>ValueError\<close>, the handler of \<^verbatim>\<open>check_resource_usage\<close> catches \<^verbatim>\<open>ApiException\<close>
  only, and \<^verbatim>\<open>run_health_checks\<close> ends with the exception instead of a report.
\<close>

theorem malformed_quantity_aborts_evaluation:
  "parse_cpu ''abc'' = Inl ValueError
   \<and> check_resource_usage (quota_world ''abc'' ''1'') ''prod'' = Inl ValueError
   \<and> run_health_checks empty_config (quota_world ''abc'' ''1'') [''prod''] = Inl ValueError"
  by (simp add: check_defs world_defs parser_defs)

section \<open>Properties of the collector failure handling\<close>

text \<open>
  C2. Listing the resource quotas of \<^verbatim>\<open>payments\<close> fails with an \<^verbatim>\<open>ApiException\<close>:
  the exception is not propagated and the issue found in \<^verbatim>\<open>billing\<close> is in the report,
  but \<^verbatim>\<open>check_resource_usage\<close> returns no issue for the failure, and the report holds
  no \<^verbatim>\<open>api_error\<close> issue for \<^verbatim>\<open>payments\<close>. (The deployment and pod checks do append
  one: \<open>deployment_api_failure_becomes_issue\<close>, \<open>pod_api_failure_becomes_issue\<close>.)
\<close>

theorem quota_api_failure_leaves_no_issue:
  "list_namespaced_resource_quota payments_down_world ''payments''
     = Inl (ApiException ''(503) Service Unavailable'')
   \<and> check_resource_usage payments_down_world ''payments'' = Inr []
   \<and> map_sum id (\<lambda>r. map (\<lambda>i. (type i, resource i)) (all_issues r))
        (run_health_checks empty_config payments_down_world [''payments'', ''billing''])
      = Inr [(''deployment_unhealthy'', ''billing/web'')]
   \<and> map_sum id (\<lambda>r. filter is_api_error (all_issues r))
        (run_health_checks empty_config payments_down_world [''payments'', ''billing''])
      = Inr []"
  by (simp add: check_defs world_defs is_api_error_def)

section \<open>Properties of the alert message\<close>

text \<open>
  C8. The alert message for \<open>n\<close> issues is the two header lines, then the first
  \<open>min n 10\<close> issues in input order, each as type, message, resource and time stamp,
  then the line \<^verbatim>\<open>... and N more issues\<close> with \<open>N = n - 10\<close> exactly when \<open>n\<close> is
  above 10. Fifteen issues give ten entries and \<^verbatim>\<open>... and 5 more issues\<close>.
\<close>

theorem format_alert_message_truncates:
  "format_alert_message issues sev =
     alarm @ '' '' @ sev @ '' CI/CD Infrastructure Alert'' @ nl @ nl
     @ ''Found '' @ str_nat (length issues) @ '' '' @ lower sev @ '' issues:'' @ nl @ nl
     @ concat (map format_issue (take 10 issues))
     @ (if 10 < length issues
        then ''... and '' @ str_nat (length issues - 10) @ '' more issues'' @ nl else [])
   \<and> length (take 10 issues) = min (length issues) 10
   \<and> format_issue i =
       bullet @ '' '' @ type i @ '': '' @ message i @ nl
       @ ''  Resource: '' @ resource i @ nl @ ''  Time: '' @ timestamp i @ nl @ nl
   \<and> (length issues = 15 \<longrightarrow>
        format_alert_message issues sev =
          alarm @ '' '' @ sev @ '' CI/CD Infrastructure Alert'' @ nl @ nl
          @ ''Found 15 '' @ lower sev @ '' issues:'' @ nl @ nl
          @ concat (map format_issue (take 10 issues))
          @ ''... and 5 more issues'' @ nl
        \<and> length (map format_issue (take 10 issues)) = 10)"
proof -
  have shape: "format_alert_message issues sev =
     alarm @ '' '' @ sev @ '' CI/CD Infrastructure Alert'' @ nl @ nl
     @ ''Found '' @ str_nat (length issues) @ '' '' @ lower sev @ '' issues:'' @ nl @ nl
     @ concat (map format_issue (take 10 issues))
     @ (if 10 < length issues
        then ''... and '' @ str_nat (length issues - 10) @ '' more issues'' @ nl else [])"
    by (simp add: format_alert_message_def foldl_append_concat Let_def)
  have count: "length (take 10 issues) = min (length issues) 10"
    by simp
  have entry: "format_issue i =
       bullet @ '' '' @ type i @ '': '' @ message i @ nl
       @ ''  Resource: '' @ resource i @ nl @ ''  Time: '' @ timestamp i @ nl @ nl"
    by (simp add: format_issue_def)
  have fifteen: "length issues = 15 \<longrightarrow>
        format_alert_message issues sev =
          alarm @ '' '' @ sev @ '' CI/CD Infrastructure Alert'' @ nl @ nl
          @ ''Found 15 '' @ lower sev @ '' issues:'' @ nl @ nl
          @ concat (map format_issue (take 10 issues))
          @ ''... and 5 more issues'' @ nl
        \<and> length (map format_issue (take 10 issues)) = 10"
  proof
    assume n: "length issues = 15"
    have "str_nat 15 = ''15''" and "str_nat 5 = ''5''"
      by (simp_all add: str_simps)
    with n shape show "format_alert_message issues sev =
          alarm @ '' '' @ sev @ '' CI/CD Infrastructure Alert'' @ nl @ nl
          @ ''Found 15 '' @ lower sev @ '' issues:'' @ nl @ nl
          @ concat (map format_issue (take 10 issues))
          @ ''... and 5 more issues'' @ nl
        \<and> length (map format_issue (take 10 issues)) = 10"
      by simp
  qed
  from shape count entry fifteen show ?thesis by blast
qed

theorem format_alert_message_truncates_witness:
  "length fifteen_issues = 15
   \<and> format_alert_message fifteen_issues ''WARNING'' =
       alarm @ '' '' @ ''WARNING'' @ '' CI/CD Infrastructure Alert'' @ nl @ nl
       @ ''Found 15 '' @ lower ''WARNING'' @ '' issues:'' @ nl @ nl
       @ concat (map format_issue (take 10 fifteen_issues))
       @ ''... and 5 more issues'' @ nl
   \<and> length (map format_issue (take 10 fifteen_issues)) = 10"
proof -
  have n: "length fifteen_issues = 15"
    by (simp add: fifteen_issues_def)
  from format_alert_message_truncates [of fifteen_issues "''WARNING''" sample_issue] n
  show ?thesis by blast
qed

section \<open>Properties of the dispatch\<close>

text \<open>
  C5, as stated for all three channels, does not hold: with a warning in the report,
  \<^verbatim>\<open>send_warnings\<close> true, and e-mail and webhook both enabled with their warning gate
  set, \<^verbatim>\<open>send_alerts\<close> attempts no channel.
\<close>

theorem warning_email_gate_counterexample:
  "warning (issues_by_severity warning_report) \<noteq> []
   \<and> dict_get (send_warnings (cfg_alerts warning_gates_config)) True
   \<and> dict_get (smtp_enabled (cfg_alerts warning_gates_config)) False
   \<and> dict_get (email_warning (cfg_alerts warning_gates_config)) False
   \<and> dict_get (webhook_enabled (cfg_alerts warning_gates_config)) False
   \<and> dict_get (webhook_warning (cfg_alerts warning_gates_config)) False
   \<and> send_alerts warning_gates_config quiet_world warning_report = Inr []"
  by (simp add: warning_report_def make_report_def sample_issue_def warning_gates_config_def
      example_defs dict_get_def send_alerts_def send_warning_def bind_exn_def Let_def)

text \<open>
  C5, amended. When the warning bucket is not empty, \<^verbatim>\<open>send_warnings\<close> is true (the
  default) and the critical dispatch before it raised nothing, the warning dispatch
  formats the warning bucket and attempts the Slack channel, exactly when Slack is
  enabled and its warning gate is set; it attempts no other channel.
\<close>

theorem warnings_go_to_slack_only:
  assumes "warning (issues_by_severity report) \<noteq> []"
    and "dict_get (send_warnings (cfg_alerts cfg)) True"
    and "(if critical (issues_by_severity report) \<noteq> [] then send_critical cfg w report
          else Inr []) = Inr first"
  shows "send_alerts cfg w report =
     Inr (first @
          (if dict_get (slack_enabled (cfg_alerts cfg)) False
              \<and> dict_get (slack_warning (cfg_alerts cfg)) False
           then [Slack (format_alert_message (warning (issues_by_severity report)) ''WARNING'')
                   (dict_get (slack_default_channel (cfg_alerts cfg)) ''#alerts'')]
           else []))"
  using assms
  by (simp add: send_alerts_def send_warning_def send_slack_alert_def bind_exn_def Let_def)

theorem warnings_go_to_slack_only_witness:
  "warning (issues_by_severity warning_report) \<noteq> []
   \<and> dict_get (send_warnings (cfg_alerts slack_warning_config)) True
   \<and> send_alerts slack_warning_config quiet_world warning_report =
       Inr [Slack (format_alert_message (warning (issues_by_severity warning_report)) ''WARNING'')
              ''#alerts'']"
proof -
  have a: "warning (issues_by_severity warning_report) \<noteq> []"
    by (simp add: warning_report_def make_report_def sample_issue_def)
  have b: "dict_get (send_warnings (cfg_alerts slack_warning_config)) True"
    by (simp add: slack_warning_config_def example_defs dict_get_def)
  have c: "(if critical (issues_by_severity warning_report) \<noteq> []
            then send_critical slack_warning_config quiet_world warning_report
            else Inr []) = Inr []"
    by (simp add: warning_report_def make_report_def sample_issue_def)
  from warnings_go_to_slack_only [OF a b c] a b show ?thesis
    by (simp add: slack_warning_config_def example_defs dict_get_def)
qed

section \<open>Properties of the scheduler\<close>

text \<open>
  C6. A single-shot run over a namespace with a deployment at 0 of 3 ready replicas: the
  report holds a critical issue, and \<^verbatim>\<open>main\<close> returns 0.
\<close>

theorem single_shot_exit_status_ignores_issues:
  "map_sum id (\<lambda>r. map severity (critical (issues_by_severity r)))
      (run_health_checks empty_config three_deployments_world (namespaces once_args))
     = Inr [''critical'']
   \<and> snd (main (Inr empty_config) once_args (\<lambda>k. three_deployments_world) 0) = Exit 0"
  by (simp add: main_def single_shot_def output_path_def send_alerts_def send_critical_def
      send_warning_def once_args_def check_defs world_defs)

text \<open>
  C1. In continuous mode: when the \<^verbatim>\<open>try\<close> block of a cycle (evaluation, dispatch,
  report write) raises an exception of class \<^verbatim>\<open>Exception\<close> and the sleep after it
  returns, the exception is logged, the configured interval is slept, and the loop goes
  on with the next cycle. As long as no cycle raises \<^verbatim>\<open>KeyboardInterrupt\<close> and every
  sleep returns, the loop is still running after any number of cycles, with one
  full-interval sleep after each, and \<^verbatim>\<open>main\<close> has not returned. An exception leaves
  the loop only as a \<^verbatim>\<open>KeyboardInterrupt\<close> raised in a cycle or as what the sleep call
  itself raised, never as a failure of evaluation, dispatch or report write.
\<close>

theorem continuous_mode_survives_cycle_failures:
  "(cycle cfg (ws k) a = (evs, Some e) \<and> is_Exception e \<and> sleep (ws k) = None \<longrightarrow>
      monitor_loop cfg a ws k (Suc n) =
        (evs @ [LogError ''Health check failed'' e, Slept (interval a)]
           @ fst (monitor_loop cfg a ws (Suc k) n),
         snd (monitor_loop cfg a ws (Suc k) n)))
   \<and> ((\<forall>j<n. sleep (ws (k + j)) = None
              \<and> snd (cycle cfg (ws (k + j)) a) \<noteq> Some KeyboardInterrupt) \<longrightarrow>
        snd (monitor_loop cfg a ws k n) = StillRunning
        \<and> filter is_slept (fst (monitor_loop cfg a ws k n)) = replicate n (Slept (interval a)))
   \<and> (snd (monitor_loop cfg a ws k n) = Raised x \<longrightarrow>
        (\<exists>j<n. (snd (cycle cfg (ws (k + j)) a) = Some KeyboardInterrupt \<and> x = KeyboardInterrupt)
               \<or> sleep (ws (k + j)) = Some x))
   \<and> (\<not> once a
        \<and> (\<forall>j<n. sleep (ws j) = None \<and> snd (cycle cfg (ws j) a) \<noteq> Some KeyboardInterrupt) \<longrightarrow>
        snd (main (Inr cfg) a ws n) = Running)"
proof -
  have caught: "cycle cfg (ws k) a = (evs, Some e) \<and> is_Exception e \<and> sleep (ws k) = None \<longrightarrow>
      monitor_loop cfg a ws k (Suc n) =
        (evs @ [LogError ''Health check failed'' e, Slept (interval a)]
           @ fst (monitor_loop cfg a ws (Suc k) n),
         snd (monitor_loop cfg a ws (Suc k) n))"
    using continuous_caught by blast
  have running: "(\<forall>j<n. sleep (ws (k + j)) = None
              \<and> snd (cycle cfg (ws (k + j)) a) \<noteq> Some KeyboardInterrupt) \<longrightarrow>
        snd (monitor_loop cfg a ws k n) = StillRunning
        \<and> filter is_slept (fst (monitor_loop cfg a ws k n)) = replicate n (Slept (interval a))"
    using continuous_keeps_running by blast
  have cause: "snd (monitor_loop cfg a ws k n) = Raised x \<longrightarrow>
        (\<exists>j<n. (snd (cycle cfg (ws (k + j)) a) = Some KeyboardInterrupt \<and> x = KeyboardInterrupt)
               \<or> sleep (ws (k + j)) = Some x)"
    using continuous_exit_cause by blast
  have top: "\<not> once a
        \<and> (\<forall>j<n. sleep (ws j) = None \<and> snd (cycle cfg (ws j) a) \<noteq> Some KeyboardInterrupt) \<longrightarrow>
        snd (main (Inr cfg) a ws n) = Running"
  proof
    assume h: "\<not> once a
        \<and> (\<forall>j<n. sleep (ws j) = None \<and> snd (cycle cfg (ws j) a) \<noteq> Some KeyboardInterrupt)"
    then have "\<forall>j<n. sleep (ws (0 + j)) = None
        \<and> snd (cycle cfg (ws (0 + j)) a) \<noteq> Some KeyboardInterrupt"
      by simp
    from continuous_keeps_running [OF this]
    have still: "snd (monitor_loop cfg a ws 0 n) = StillRunning"
      by simp
    obtain later res where m: "monitor_loop cfg a ws 0 n = (later, res)"
      by (cases "monitor_loop cfg a ws 0 n")
    with still have "res = StillRunning"
      by simp
    with h m show "snd (main (Inr cfg) a ws n) = Running"
      by (simp add: main_def Let_def)
  qed
  from caught running cause top show ?thesis by blast
qed

theorem continuous_mode_survives_cycle_failures_witness:
  "cycle no_recipients_config (failing_cycles 0) loop_args = ([], Some ValueError)
   \<and> is_Exception ValueError \<and> sleep (failing_cycles 0) = None
   \<and> monitor_loop no_recipients_config loop_args failing_cycles 0 (Suc 2) =
        ([] @ [LogError ''Health check failed'' ValueError, Slept (interval loop_args)]
           @ fst (monitor_loop no_recipients_config loop_args failing_cycles (Suc 0) 2),
         snd (monitor_loop no_recipients_config loop_args failing_cycles (Suc 0) 2))
   \<and> snd (monitor_loop no_recipients_config loop_args failing_cycles 0 3) = StillRunning
   \<and> filter is_slept (fst (monitor_loop no_recipients_config loop_args failing_cycles 0 3))
      = replicate 3 (Slept (interval loop_args))
   \<and> snd (main (Inr no_recipients_config) loop_args failing_cycles 3) = Running"
proof -
  note T = continuous_mode_survives_cycle_failures
    [where cfg = no_recipients_config and ws = failing_cycles and a = loop_args and k = 0
       and evs = "[]" and e = ValueError]
  have c: "cycle no_recipients_config (failing_cycles 0) loop_args = ([], Some ValueError)"
    by (rule failing_cycle_0)
  have x: "is_Exception ValueError"
    by (simp add: is_Exception_def)
  have s: "sleep (failing_cycles 0) = None"
    by (rule failing_cycles_sleep)
  have o: "\<not> once loop_args"
    by (simp add: loop_args_def)
  have q: "\<forall>j<3. sleep (failing_cycles (0 + j)) = None
      \<and> snd (cycle no_recipients_config (failing_cycles (0 + j)) loop_args)
          \<noteq> Some KeyboardInterrupt"
    by (simp add: failing_cycles_sleep failing_cycles_never_interrupt)
  have q': "\<forall>j<3. sleep (failing_cycles j) = None
      \<and> snd (cycle no_recipients_config (failing_cycles j) loop_args) \<noteq> Some KeyboardInterrupt"
    by (simp add: failing_cycles_sleep failing_cycles_never_interrupt)
  from T [where n = 2] c x s have first:
    "monitor_loop no_recipients_config loop_args failing_cycles 0 (Suc 2) =
        ([] @ [LogError ''Health check failed'' ValueError, Slept (interval loop_args)]
           @ fst (monitor_loop no_recipients_config loop_args failing_cycles (Suc 0) 2),
         snd (monitor_loop no_recipients_config loop_args failing_cycles (Suc 0) 2))"
    by blast
  from T [where n = 3] q have run:
    "snd (monitor_loop no_recipients_config loop_args failing_cycles 0 3) = StillRunning
     \<and> filter is_slept (fst (monitor_loop no_recipients_config loop_args failing_cycles 0 3))
        = replicate 3 (Slept (interval loop_args))"
    by blast
  from T [where n = 3] o q' have top:
    "snd (main (Inr no_recipients_config) loop_args failing_cycles 3) = Running"
    by blast
  from c x s first run top show ?thesis by blast
qed

end
